theory Spec2Isabelle
  imports Complex_Main "HOL-Library.Sublist"
begin

section \<open>Values of the Python program\<close>

text \<open>
  The analysed program is a Python pipeline: \<open>technical_analyzer.py\<close> computes indicators
  for each asset, \<open>scoring_selector.py\<close> scores the analysed assets, derives price levels and
  selects the best ten. Python floats are modelled as real numbers (no rounding error); the
  values \<open>inf\<close> and \<open>nan\<close>, which pandas and numpy produce instead of raising on a
  division by zero, are explicit constructors of the type \<open>fl\<close>. The sign of a zero is not
  modelled. A pandas series that may hold \<open>NaN\<close> but no infinity is a list of
  \<open>real option\<close>, \<open>None\<close> being \<open>NaN\<close>.
\<close>

datatype fl = Num real | PInf | NInf | NaN

datatype py_error = TypeError | KeyError | ValueError

text \<open>A JSON value stored under a key of an asset's dict: \<open>null\<close>, a number or a string.\<close>

datatype pyval = PNone | PNum real | PStr string

fun fl_neg :: "fl \<Rightarrow> fl" where
  "fl_neg (Num a) = Num (- a)"
| "fl_neg PInf = NInf"
| "fl_neg NInf = PInf"
| "fl_neg NaN = NaN"

fun fl_add :: "fl \<Rightarrow> fl \<Rightarrow> fl" where
  "fl_add (Num a) (Num b) = Num (a + b)"
| "fl_add NaN _ = NaN"
| "fl_add _ NaN = NaN"
| "fl_add PInf NInf = NaN"
| "fl_add NInf PInf = NaN"
| "fl_add PInf _ = PInf"
| "fl_add NInf _ = NInf"
| "fl_add _ PInf = PInf"
| "fl_add _ NInf = NInf"

definition fl_sub :: "fl \<Rightarrow> fl \<Rightarrow> fl" where
  "fl_sub a b = fl_add a (fl_neg b)"

fun fl_mul :: "fl \<Rightarrow> fl \<Rightarrow> fl" where
  "fl_mul (Num a) (Num b) = Num (a * b)"
| "fl_mul NaN _ = NaN"
| "fl_mul _ NaN = NaN"
| "fl_mul PInf (Num b) = (if b = 0 then NaN else if 0 < b then PInf else NInf)"
| "fl_mul NInf (Num b) = (if b = 0 then NaN else if 0 < b then NInf else PInf)"
| "fl_mul (Num a) PInf = (if a = 0 then NaN else if 0 < a then PInf else NInf)"
| "fl_mul (Num a) NInf = (if a = 0 then NaN else if 0 < a then NInf else PInf)"
| "fl_mul PInf PInf = PInf"
| "fl_mul NInf NInf = PInf"
| "fl_mul PInf NInf = NInf"
| "fl_mul NInf PInf = NInf"

text \<open>
  Division of numpy floats: a finite non-zero number over zero is an infinity, zero over
  zero is \<open>nan\<close>, a finite number over an infinity is zero.
\<close>

fun fl_div :: "fl \<Rightarrow> fl \<Rightarrow> fl" where
  "fl_div (Num a) (Num b) =
     (if b \<noteq> 0 then Num (a / b) else if 0 < a then PInf else if a < 0 then NInf else NaN)"
| "fl_div NaN _ = NaN"
| "fl_div _ NaN = NaN"
| "fl_div (Num a) PInf = Num 0"
| "fl_div (Num a) NInf = Num 0"
| "fl_div PInf (Num b) = (if 0 \<le> b then PInf else NInf)"
| "fl_div NInf (Num b) = (if 0 \<le> b then NInf else PInf)"
| "fl_div _ _ = NaN"

fun fl_abs :: "fl \<Rightarrow> fl" where
  "fl_abs (Num a) = Num \<bar>a\<bar>"
| "fl_abs PInf = PInf"
| "fl_abs NInf = PInf"
| "fl_abs NaN = NaN"

text \<open>Comparisons: every comparison with \<open>nan\<close> is false.\<close>

fun fl_less :: "fl \<Rightarrow> fl \<Rightarrow> bool" where
  "fl_less (Num a) (Num b) = (a < b)"
| "fl_less NaN _ = False"
| "fl_less _ NaN = False"
| "fl_less NInf NInf = False"
| "fl_less NInf _ = True"
| "fl_less _ NInf = False"
| "fl_less PInf _ = False"
| "fl_less _ PInf = True"

fun fl_le :: "fl \<Rightarrow> fl \<Rightarrow> bool" where
  "fl_le (Num a) (Num b) = (a \<le> b)"
| "fl_le NaN _ = False"
| "fl_le _ NaN = False"
| "fl_le NInf _ = True"
| "fl_le _ PInf = True"
| "fl_le _ _ = False"

text \<open>\<open>pd.notna\<close>.\<close>

fun notna :: "fl \<Rightarrow> bool" where
  "notna NaN = False"
| "notna _ = True"

fun fl_of :: "real option \<Rightarrow> fl" where
  "fl_of None = NaN"
| "fl_of (Some r) = Num r"

text \<open>
  Python's \<open>round(x, n)\<close> on a float rounds the exact value of \<open>x\<close> to \<open>n\<close> decimals, a
  tie going to the even neighbour. On an \<open>int\<close> and \<open>n \<ge> 0\<close> it returns the \<open>int\<close>.
\<close>

definition round_half_even :: "real \<Rightarrow> int" where
  "round_half_even r =
     (let f = \<lfloor>r\<rfloor>; d = r - of_int f
      in if d < 1 / 2 then f else if 1 / 2 < d then f + 1 else if even f then f else f + 1)"

definition py_round :: "real \<Rightarrow> nat \<Rightarrow> real" where
  "py_round x n = of_int (round_half_even (x * 10 ^ n)) / 10 ^ n"

definition py_round_int :: "int \<Rightarrow> nat \<Rightarrow> int" where
  "py_round_int k n = k"


section \<open>The analysis record\<close>

text \<open>
  The dict \<open>analyze_coin\<close> returns. \<open>price\<close> and \<open>volume_24h\<close> are numbers there (the
  comparisons of \<open>analyze_coin\<close> reject anything else), \<open>market_cap\<close> is stored as it
  came. Symbol and name are only stored and formatted, and are modelled as strings.
  \<open>atr\<close> and \<open>atr_percent\<close> are read with \<open>dict.get\<close> and a default, so the key may be
  absent (\<open>None\<close>).
\<close>

record macd_result =
  macd_line :: real
  macd_signal_line :: real
  macd_hist :: real
  macd_bullish :: bool

record indicators =
  ema_7 :: real
  ema_25 :: real
  rsi :: fl
  macd :: macd_result
  atr :: "real option"
  atr_percent :: "real option"

record signals =
  ema_cross :: bool
  ema_aligned :: bool
  rsi_bullish :: bool
  rsi_value :: fl
  macd_signal :: string
  macd_histogram :: real
  volume_surge :: bool
  trend :: string
  trend_strength :: fl

record analysis =
  an_symbol :: string
  an_name :: string
  an_price :: real
  an_market_cap :: pyval
  an_volume_24h :: real
  an_indicators :: indicators
  an_signals :: signals
  an_price_change_24h :: pyval
  an_price_change_7d :: pyval

section \<open>scoring_selector.py\<close>

record scores =
  momentum_score :: real
  volume_score :: real
  technical_score :: real
  risk_score :: real
  final_score :: real

record levels =
  entry_zone :: "real list"
  stop_loss :: real
  target_1 :: real
  target_2 :: real
  risk_reward_t1 :: real

record CryptoSignal =
  cs_symbol :: string
  cs_name :: string
  cs_pair :: string
  cs_price :: real
  cs_market_cap :: pyval
  cs_volume_24h :: real
  cs_technical_score :: real
  cs_momentum_score :: real
  cs_volume_score :: real
  cs_risk_score :: real
  cs_final_score :: real
  cs_signals :: signals
  cs_entry_zone :: "real list"
  cs_stop_loss :: real
  cs_target_1 :: real
  cs_target_2 :: real
  cs_btc_correlation :: real
  cs_timestamp :: string

definition MIN_SCORE :: real where
  "MIN_SCORE = 7.5"

definition MIN_MARKET_CAP :: real where
  "MIN_MARKET_CAP = 100000000"

text \<open>
  \<open>market_cap_multiplier\<close>: the first comparison raises \<open>TypeError\<close> on a value that is
  not a number.
\<close>

fun market_cap_multiplier :: "pyval \<Rightarrow> py_error + real" where
  "market_cap_multiplier (PNum market_cap) =
     Inr (if market_cap > 10000000000 then 1.1
          else if market_cap > 1000000000 then 1.0
          else if market_cap > 100000000 then 0.95
          else 0.0)"
| "market_cap_multiplier _ = Inl TypeError"

text \<open>The four sub-scores of \<open>calculate_score\<close>, before rounding.\<close>

definition momentum_of :: "signals \<Rightarrow> int" where
  "momentum_of sg =
     (let momentum = 2;
          momentum = (if ema_aligned sg then momentum + 4 else momentum);
          momentum = (if ema_cross sg then momentum + 2 else momentum);
          momentum = (if rsi_bullish sg then momentum + 2 else momentum)
      in min momentum 10)"

definition volume_of :: "analysis \<Rightarrow> int" where
  "volume_of a =
     (let volume_score = 4;
          volume_score = (if volume_surge (an_signals a) then volume_score + 3 else volume_score);
          volume_score = (if an_volume_24h a > 50000000 then volume_score + 3 else volume_score)
      in min volume_score 10)"

definition technical_of :: "signals \<Rightarrow> int" where
  "technical_of sg =
     (let technical = 3;
          technical = (if macd_signal sg = ''buy'' then technical + 3 else technical);
          technical = (if trend sg = ''bullish'' then technical + 2 else technical);
          technical = (if fl_le (Num 40) (rsi_value sg) \<and> fl_le (rsi_value sg) (Num 60)
                       then technical + 2 else technical)
      in min technical 10)"

definition risk_of :: "indicators \<Rightarrow> real" where
  "risk_of ind =
     (let atr_pct = (case atr_percent ind of None \<Rightarrow> 5 | Some p \<Rightarrow> p)
      in max 0 (10 - (atr_pct * 1.2)))"

definition calculate_score :: "analysis \<Rightarrow> py_error + scores" where
  "calculate_score a =
     (let sg = an_signals a;
          ind = an_indicators a;
          momentum_score = momentum_of sg;
          volume_score = volume_of a;
          technical_score = technical_of sg;
          risk_score = risk_of ind;
          final = of_int momentum_score * 0.35 + of_int volume_score * 0.25
                  + of_int technical_score * 0.25 + risk_score * 0.15
      in case market_cap_multiplier (an_market_cap a) of
           Inl e \<Rightarrow> Inl e
         | Inr m \<Rightarrow>
             Inr \<lparr> momentum_score = of_int (py_round_int momentum_score 2),
                   volume_score = of_int (py_round_int volume_score 2),
                   technical_score = of_int (py_round_int technical_score 2),
                   risk_score = py_round risk_score 2,
                   final_score = py_round (final * m) 2 \<rparr>)"

text \<open>\<open>calculate_levels\<close>; the argument \<open>atr\<close> is not used.\<close>

definition calculate_levels :: "real \<Rightarrow> real \<Rightarrow> levels" where
  "calculate_levels price atr_arg =
     (let stop_loss = price * 0.975;
          target_1 = price * 1.10;
          target_2 = price * 1.20;
          entry_low = price * 0.985;
          entry_high = price * 1.015;
          risk = price - stop_loss
      in \<lparr> entry_zone = [py_round entry_low 6, py_round entry_high 6],
            stop_loss = py_round stop_loss 6,
            target_1 = py_round target_1 6,
            target_2 = py_round target_2 6,
            risk_reward_t1 = (if risk > 0 then py_round ((target_1 - price) / risk) 2 else 0) \<rparr>)"

text \<open>
  The loop of \<open>select_top_opportunities\<close> over \<open>analyzed_coins\<close>; \<open>scored_coins\<close> is the
  list built so far, \<open>now\<close> the clock's reading. Nothing catches an exception here.
\<close>

definition make_signal :: "string \<Rightarrow> analysis \<Rightarrow> scores \<Rightarrow> levels \<Rightarrow> CryptoSignal" where
  "make_signal now a sc lv =
     \<lparr> cs_symbol = an_symbol a,
       cs_name = an_name a,
       cs_pair = an_symbol a @ ''/USDT'',
       cs_price = an_price a,
       cs_market_cap = an_market_cap a,
       cs_volume_24h = an_volume_24h a,
       cs_technical_score = technical_score sc,
       cs_momentum_score = momentum_score sc,
       cs_volume_score = volume_score sc,
       cs_risk_score = risk_score sc,
       cs_final_score = final_score sc,
       cs_signals = an_signals a,
       cs_entry_zone = entry_zone lv,
       cs_stop_loss = stop_loss lv,
       cs_target_1 = target_1 lv,
       cs_target_2 = target_2 lv,
       cs_btc_correlation = 0.75,
       cs_timestamp = now \<rparr>"

fun select_loop :: "string \<Rightarrow> analysis list \<Rightarrow> CryptoSignal list \<Rightarrow> py_error + CryptoSignal list" where
  "select_loop now [] scored_coins = Inr scored_coins"
| "select_loop now (a # rest) scored_coins =
     (case an_market_cap a of
        PNum mc \<Rightarrow>
          if mc < MIN_MARKET_CAP then select_loop now rest scored_coins
          else (case calculate_score a of
                  Inl e \<Rightarrow> Inl e
                | Inr sc \<Rightarrow>
                    if final_score sc < MIN_SCORE then select_loop now rest scored_coins
                    else let atr_v = (case atr (an_indicators a) of
                                        None \<Rightarrow> an_price a * 0.02 | Some v \<Rightarrow> v);
                             lv = calculate_levels (an_price a) atr_v
                         in select_loop now rest (scored_coins @ [make_signal now a sc lv]))
      | _ \<Rightarrow> Inl TypeError)"

text \<open>
  \<open>scored_coins.sort(key=lambda x: x.final_score, reverse=True)\<close> is a stable sort,
  descending; then the first ten.
\<close>

definition sort_desc :: "CryptoSignal list \<Rightarrow> CryptoSignal list" where
  "sort_desc xs = sort_key (\<lambda>x. - cs_final_score x) xs"

definition select_top_opportunities :: "string \<Rightarrow> analysis list \<Rightarrow> py_error + CryptoSignal list" where
  "select_top_opportunities now analyzed_coins =
     (case select_loop now analyzed_coins [] of
        Inl e \<Rightarrow> Inl e
      | Inr scored_coins \<Rightarrow> Inr (take 10 (sort_desc scored_coins)))"


section \<open>technical_analyzer.py\<close>

text \<open>
  The input dict of one asset. A key of the dict that may be missing is an option
  (\<open>None\<close>: no such key). A bar of \<open>ohlc\<close> holds, for each of its four prices, either the
  finite number \<open>astype(float)\<close> converts the cell to, or \<open>None\<close> when the conversion
  raises. Cells that convert to \<open>nan\<close> or to an infinity are not modelled.
\<close>

record ohlc_bar =
  bar_open :: "real option"
  bar_high :: "real option"
  bar_low :: "real option"
  bar_close :: "real option"

record coin_data =
  cd_symbol :: "string option"
  cd_name :: "string option"
  cd_current_price :: "pyval option"
  cd_market_cap :: "pyval option"
  cd_total_volume :: "pyval option"
  cd_price_change_24h :: "pyval option"
  cd_price_change_7d :: "pyval option"
  cd_ohlc :: "ohlc_bar list"

text \<open>A row of the data frame after the conversion of its columns to float.\<close>

record row =
  r_open :: real
  r_high :: real
  r_low :: real
  r_close :: real

definition ebind :: "py_error + 'a \<Rightarrow> ('a \<Rightarrow> py_error + 'b) \<Rightarrow> py_error + 'b" where
  "ebind m f = (case m of Inl e \<Rightarrow> Inl e | Inr x \<Rightarrow> f x)"

definition get_key :: "'a option \<Rightarrow> py_error + 'a" where
  "get_key v = (case v of None \<Rightarrow> Inl KeyError | Some x \<Rightarrow> Inr x)"

definition as_number :: "pyval \<Rightarrow> py_error + real" where
  "as_number v = (case v of PNum x \<Rightarrow> Inr x | _ \<Rightarrow> Inl TypeError)"

definition as_float :: "real option \<Rightarrow> py_error + real" where
  "as_float v = (case v of None \<Rightarrow> Inl ValueError | Some x \<Rightarrow> Inr x)"

fun to_frame :: "ohlc_bar list \<Rightarrow> py_error + row list" where
  "to_frame [] = Inr []"
| "to_frame (b # bs) =
     ebind (as_float (bar_close b)) (\<lambda>c.
     ebind (as_float (bar_high b)) (\<lambda>h.
     ebind (as_float (bar_low b)) (\<lambda>l.
     ebind (as_float (bar_open b)) (\<lambda>opn.
     ebind (to_frame bs) (\<lambda>rows.
       Inr (\<lparr> r_open = opn, r_high = h, r_low = l, r_close = c \<rparr> # rows))))))"

text \<open>
  \<open>ewm(span=period, adjust=False).mean()\<close>: \<open>y\<^sub>0 = x\<^sub>0\<close> and
  \<open>y\<^sub>t = (1 - \<alpha>) y\<^sub>t\<^sub>-\<^sub>1 + \<alpha> x\<^sub>t\<close> with \<open>\<alpha> = 2 / (span + 1)\<close>.
\<close>

fun ewm_from :: "real \<Rightarrow> real \<Rightarrow> real list \<Rightarrow> real list" where
  "ewm_from \<alpha> prev [] = []"
| "ewm_from \<alpha> prev (x # xs) = (let y = (1 - \<alpha>) * prev + \<alpha> * x in y # ewm_from \<alpha> y xs)"

definition calculate_ema :: "real list \<Rightarrow> nat \<Rightarrow> real list" where
  "calculate_ema prices period =
     (case prices of [] \<Rightarrow> [] | x # xs \<Rightarrow> x # ewm_from (2 / (real period + 1)) x xs)"

text \<open>\<open>Series.diff()\<close>: the first entry is \<open>NaN\<close>.\<close>

fun diffs_from :: "real \<Rightarrow> real list \<Rightarrow> real option list" where
  "diffs_from prev [] = []"
| "diffs_from prev (x # xs) = Some (x - prev) # diffs_from x xs"

definition diff :: "real list \<Rightarrow> real option list" where
  "diff prices = (case prices of [] \<Rightarrow> [] | x # xs \<Rightarrow> None # diffs_from x xs)"

text \<open>\<open>s.where(cond, other)\<close> keeps an entry where the condition holds.\<close>

definition series_where :: "(real option \<Rightarrow> bool) \<Rightarrow> real \<Rightarrow> real option list \<Rightarrow> real option list" where
  "series_where cond other s = map (\<lambda>d. if cond d then d else Some other) s"

definition gt_zero :: "real option \<Rightarrow> bool" where
  "gt_zero d = (case d of None \<Rightarrow> False | Some v \<Rightarrow> v > 0)"

definition lt_zero :: "real option \<Rightarrow> bool" where
  "lt_zero d = (case d of None \<Rightarrow> False | Some v \<Rightarrow> v < 0)"

text \<open>
  \<open>rolling(window=w).mean()\<close>: \<open>NaN\<close> until \<open>w\<close> observations are there and whenever the
  window holds a \<open>NaN\<close> (\<open>min_periods\<close> is the window); an empty window gives \<open>NaN\<close>.
\<close>

definition window_mean :: "real option list \<Rightarrow> real option" where
  "window_mean ws =
     (if ws = [] \<or> None \<in> set ws then None
      else Some (sum_list (map the ws) / real (length ws)))"

definition rolling_mean :: "nat \<Rightarrow> real option list \<Rightarrow> real option list" where
  "rolling_mean w s =
     map (\<lambda>i. if i + 1 < w then None else window_mean (take w (drop (i + 1 - w) s)))
       [0..<length s]"

text \<open>
  \<open>calculate_rsi\<close>: \<open>gain\<close> and \<open>loss\<close> are the rolling means of the rises and of the
  negated falls. After the length check the series is not empty, so \<open>iloc[-1]\<close> is its
  last entry. A zero average loss is a positive zero here; pandas may produce a negative
  one, which turns the infinity of \<open>gain / loss\<close> into its negative, and \<open>rsi_of_rs\<close>
  maps both infinities to 100.
\<close>

definition rsi_of_rs :: "fl \<Rightarrow> fl" where
  "rsi_of_rs rs = fl_sub (Num 100) (fl_div (Num 100) (fl_add (Num 1) rs))"

definition gain_series :: "real list \<Rightarrow> nat \<Rightarrow> real option list" where
  "gain_series prices period = rolling_mean period (series_where gt_zero 0 (diff prices))"

definition loss_series :: "real list \<Rightarrow> nat \<Rightarrow> real option list" where
  "loss_series prices period =
     rolling_mean period (map (map_option uminus) (series_where lt_zero 0 (diff prices)))"

definition calculate_rsi :: "real list \<Rightarrow> nat \<Rightarrow> fl" where
  "calculate_rsi prices period =
     (if length prices < period + 1 then Num 50.0
      else
        let gain = gain_series prices period;
            loss = loss_series prices period;
            rs = map2 (\<lambda>g l. fl_div (fl_of g) (fl_of l)) gain loss;
            rsi_series = map rsi_of_rs rs;
            last_rsi = last rsi_series
        in if notna last_rsi then last_rsi else Num 50.0)"

definition calculate_macd :: "real list \<Rightarrow> macd_result" where
  "calculate_macd prices =
     (if length prices < 26
      then \<lparr> macd_line = 0, macd_signal_line = 0, macd_hist = 0, macd_bullish = False \<rparr>
      else
        let ema_12 = calculate_ema prices 12;
            ema_26 = calculate_ema prices 26;
            line = map2 (\<lambda>a b. a - b) ema_12 ema_26;
            signal_line = calculate_ema line 9;
            histogram = map2 (\<lambda>a b. a - b) line signal_line
        in \<lparr> macd_line = last line, macd_signal_line = last signal_line,
              macd_hist = last histogram, macd_bullish = (last histogram > 0) \<rparr>)"

text \<open>
  \<open>calculate_atr\<close>. \<open>shift(1)\<close> puts a \<open>NaN\<close> in front; the row-wise \<open>max\<close> skips \<open>NaN\<close>.
\<close>

definition shift1 :: "real list \<Rightarrow> real option list" where
  "shift1 s = (case s of [] \<Rightarrow> [] | _ \<Rightarrow> None # map Some (butlast s))"

definition max_skipna :: "real option list \<Rightarrow> real option" where
  "max_skipna vs =
     (case List.map_filter (\<lambda>v. v) vs of [] \<Rightarrow> None | x # xs \<Rightarrow> Some (fold max xs x))"

definition true_range :: "row list \<Rightarrow> real option list" where
  "true_range df =
     map (\<lambda>(r, c).
            max_skipna [Some (r_high r - r_low r),
                        map_option (\<lambda>c. \<bar>r_high r - c\<bar>) c,
                        map_option (\<lambda>c. \<bar>r_low r - c\<bar>) c])
       (zip df (shift1 (map r_close df)))"

definition calculate_atr :: "row list \<Rightarrow> nat \<Rightarrow> real" where
  "calculate_atr df period =
     (if length df < period + 1 then 0.0
      else
        let tr = true_range df;
            atr_series = rolling_mean period tr;
            last_atr = last atr_series
        in case last_atr of Some v \<Rightarrow> v | None \<Rightarrow> 0.0)"

text \<open>
  \<open>detect_trend\<close>. The division is one of numpy floats: a first price of zero gives an
  infinity or \<open>nan\<close>, no exception. Python's \<open>min(a, b)\<close> is \<open>b\<close> if \<open>b < a\<close>, else \<open>a\<close>.
\<close>

record trend_result =
  tr_trend :: string
  tr_strength :: fl

definition py_min :: "fl \<Rightarrow> fl \<Rightarrow> fl" where
  "py_min a b = (if fl_less b a then b else a)"

definition detect_trend :: "real list \<Rightarrow> trend_result" where
  "detect_trend prices =
     (if length prices < 10 then \<lparr> tr_trend = ''neutral'', tr_strength = Num 0 \<rparr>
      else
        let recent = drop (length prices - 10) prices;
            change_pct = fl_mul (fl_div (Num (last recent - hd recent)) (Num (hd recent))) (Num 100)
        in if fl_less (Num 3) change_pct
           then \<lparr> tr_trend = ''bullish'',
                  tr_strength = py_min (fl_div (fl_abs change_pct) (Num 5)) (Num 5) \<rparr>
           else if fl_less change_pct (Num (- 3))
           then \<lparr> tr_trend = ''bearish'',
                  tr_strength = py_min (fl_div (fl_abs change_pct) (Num 5)) (Num 5) \<rparr>
           else \<lparr> tr_trend = ''neutral'', tr_strength = Num 0 \<rparr>)"


text \<open>
  The body of \<open>analyze_coin\<close> inside its \<open>try\<close>: \<open>Inr None\<close> is the early
  \<open>return None\<close>, \<open>Inl e\<close> an exception raised on the way. The moving averages of finite
  prices are finite, so the \<open>pd.notna\<close> tests on them hold. A missing key read with
  \<open>[]\<close> raises \<open>KeyError\<close>, a comparison of \<open>None\<close> or of a string with a number
  raises \<open>TypeError\<close>.
\<close>

definition analyze_coin_body :: "coin_data \<Rightarrow> py_error + analysis option" where
  "analyze_coin_body coin =
     (let ohlc_data = cd_ohlc coin
      in if ohlc_data = [] \<or> length ohlc_data < 20 then Inr None
         else
           ebind (to_frame ohlc_data) (\<lambda>df.
             let prices = map r_close df;
                 ema_7_s = calculate_ema prices 7;
                 ema_25_s = calculate_ema prices 25;
                 rsi_v = calculate_rsi prices 14;
                 macd_v = calculate_macd prices;
                 atr_v = calculate_atr df 14;
                 trend_v = detect_trend prices
             in
             ebind (get_key (cd_current_price coin)) (\<lambda>current_price.
               let current_ema_7 = last ema_7_s;
                   current_ema_25 = last ema_25_s;
                   volume_24h = (case cd_total_volume coin of None \<Rightarrow> PNum 0 | Some v \<Rightarrow> v)
               in
               ebind (as_number current_price) (\<lambda>price.
               ebind (as_number volume_24h) (\<lambda>volume.
               ebind (get_key (cd_symbol coin)) (\<lambda>symbol.
               ebind (get_key (cd_name coin)) (\<lambda>name.
               ebind (get_key (cd_market_cap coin)) (\<lambda>market_cap.
                 Inr (Some
                   \<lparr> an_symbol = symbol,
                     an_name = name,
                     an_price = price,
                     an_market_cap = market_cap,
                     an_volume_24h = volume,
                     an_indicators =
                       \<lparr> ema_7 = current_ema_7,
                         ema_25 = current_ema_25,
                         rsi = rsi_v,
                         macd = macd_v,
                         atr = Some atr_v,
                         atr_percent = Some (if price > 0 then atr_v / price * 100 else 0) \<rparr>,
                     an_signals =
                       \<lparr> ema_cross = (current_ema_7 > current_ema_25),
                         ema_aligned = (price > current_ema_7 \<and> current_ema_7 > current_ema_25),
                         rsi_bullish = (fl_le (Num 35) rsi_v \<and> fl_le rsi_v (Num 70)),
                         rsi_value = rsi_v,
                         macd_signal = (if macd_bullish macd_v then ''buy'' else ''sell''),
                         macd_histogram = macd_hist macd_v,
                         volume_surge = (volume > 10000000),
                         trend = tr_trend trend_v,
                         trend_strength = tr_strength trend_v \<rparr>,
                     an_price_change_24h =
                       (case cd_price_change_24h coin of None \<Rightarrow> PNum 0 | Some v \<Rightarrow> v),
                     an_price_change_7d =
                       (case cd_price_change_7d coin of None \<Rightarrow> PNum 0 | Some v \<Rightarrow> v) \<rparr>)))))))))"

text \<open>\<open>analyze_coin\<close>: \<open>except Exception\<close> logs and returns \<open>None\<close>.\<close>

definition analyze_coin :: "coin_data \<Rightarrow> analysis option" where
  "analyze_coin coin = (case analyze_coin_body coin of Inl e \<Rightarrow> None | Inr r \<Rightarrow> r)"

text \<open>
  The loop of \<open>analyze_all\<close> over \<open>crypto_data['coins']\<close>, and the list it stores under
  \<open>analyzed_coins\<close>. A returned dict is never empty, so \<open>if analysis\<close> tests for \<open>None\<close>.
\<close>

fun analyze_loop :: "coin_data list \<Rightarrow> analysis list \<Rightarrow> analysis list" where
  "analyze_loop [] analyzed_coins = analyzed_coins"
| "analyze_loop (coin # rest) analyzed_coins =
     (case analyze_coin coin of
        Some a \<Rightarrow> analyze_loop rest (analyzed_coins @ [a])
      | None \<Rightarrow> analyze_loop rest analyzed_coins)"

definition analyze_all :: "coin_data list \<Rightarrow> analysis list" where
  "analyze_all coins = analyze_loop coins []"

text \<open>
  What one pass of the loop of \<open>select_top_opportunities\<close> appends for an analysis record
  whose market cap is a number: the signal, or nothing when the record fails the
  market-cap floor or the score floor.
\<close>

definition loop_signal :: "string \<Rightarrow> analysis \<Rightarrow> CryptoSignal option" where
  "loop_signal now a =
     (case an_market_cap a of
        PNum mc \<Rightarrow>
          if mc < MIN_MARKET_CAP then None
          else (case calculate_score a of
                  Inl e \<Rightarrow> None
                | Inr sc \<Rightarrow>
                    if final_score sc < MIN_SCORE then None
                    else Some (make_signal now a sc
                           (calculate_levels (an_price a)
                              (case atr (an_indicators a) of
                                 None \<Rightarrow> an_price a * 0.02 | Some v \<Rightarrow> v))))
      | _ \<Rightarrow> None)"

definition is_number :: "pyval \<Rightarrow> bool" where
  "is_number v = (case v of PNum x \<Rightarrow> True | _ \<Rightarrow> False)"

section \<open>Example inputs\<close>

definition example_analysis :: analysis where
  "example_analysis =
     \<lparr> an_symbol = ''BTC'', an_name = ''Bitcoin'', an_price = 105,
       an_market_cap = PNum 2000000000, an_volume_24h = 60000000,
       an_indicators = \<lparr> ema_7 = 101, ema_25 = 100, rsi = Num 55,
          macd = \<lparr> macd_line = 1, macd_signal_line = 0, macd_hist = 1, macd_bullish = True \<rparr>,
          atr = Some 1, atr_percent = Some 1 \<rparr>,
       an_signals = \<lparr> ema_cross = True, ema_aligned = True, rsi_bullish = True,
          rsi_value = Num 55, macd_signal = ''buy'', macd_histogram = 1, volume_surge = True,
          trend = ''bullish'', trend_strength = Num 1 \<rparr>,
       an_price_change_24h = PNum 0, an_price_change_7d = PNum 0 \<rparr>"


definition example_eth :: analysis where
  "example_eth = example_analysis \<lparr> an_symbol := ''ETH'', an_name := ''Ethereum'' \<rparr>"

definition example_big :: analysis where
  "example_big =
     example_analysis \<lparr> an_symbol := ''BIG'', an_name := ''Big'', an_market_cap := PNum 20000000000 \<rparr>"

definition example_low_cap :: analysis where
  "example_low_cap =
     example_analysis \<lparr> an_symbol := ''LOW'', an_name := ''Low'', an_market_cap := PNum 50000000 \<rparr>"

definition example_batch :: "analysis list" where
  "example_batch = [example_analysis, example_low_cap, example_eth, example_big]"

definition example_scores :: scores where
  "example_scores =
     \<lparr> momentum_score = 10, volume_score = 10, technical_score = 10, risk_score = 8.8,
       final_score = 9.82 \<rparr>"

text \<open>
  An asset with twenty bars, flat at 100 and closing at 104, the same asset with a
  \<open>null\<close> market cap, and one with nineteen bars only.
\<close>

definition flat_bar :: "real \<Rightarrow> ohlc_bar" where
  "flat_bar p = \<lparr> bar_open = Some p, bar_high = Some p, bar_low = Some p, bar_close = Some p \<rparr>"

definition example_coin :: coin_data where
  "example_coin =
     \<lparr> cd_symbol = Some ''BTC'', cd_name = Some ''Bitcoin'',
       cd_current_price = Some (PNum 105), cd_market_cap = Some (PNum 2000000000),
       cd_total_volume = Some (PNum 60000000), cd_price_change_24h = None,
       cd_price_change_7d = Some (PNum 1),
       cd_ohlc = replicate 19 (flat_bar 100) @ [flat_bar 104] \<rparr>"

definition example_null_cap_coin :: coin_data where
  "example_null_cap_coin = example_coin \<lparr> cd_symbol := Some ''XYZ'', cd_market_cap := Some PNone \<rparr>"

definition example_short_coin :: coin_data where
  "example_short_coin = example_coin \<lparr> cd_ohlc := replicate 19 (flat_bar 100) \<rparr>"


section \<open>Rounding\<close>








section \<open>Market-cap multiplier\<close>

text \<open>
  C5: for every market cap value, \<open>market_cap_multiplier\<close> returns 0.0 at 100,000,000 and
  below, 0.95 strictly above 100,000,000 up to and including 1,000,000,000, 1.0 strictly
  above that up to and including 10,000,000,000, and 1.1 strictly above 10,000,000,000.
\<close>

theorem market_cap_multiplier_bands:
  "market_cap_multiplier (PNum cap) =
     Inr (if cap \<le> 100000000 then 0.0
          else if cap \<le> 1000000000 then 0.95
          else if cap \<le> 10000000000 then 1.0
          else 1.1)"
  by simp

theorem market_cap_multiplier_bands_witness:
  "market_cap_multiplier (PNum 100000000) = Inr 0
   \<and> market_cap_multiplier (PNum 100000001) = Inr 0.95
   \<and> market_cap_multiplier (PNum 1000000000) = Inr 0.95
   \<and> market_cap_multiplier (PNum 10000000000) = Inr 1
   \<and> market_cap_multiplier (PNum 10000000001) = Inr 1.1"
  using market_cap_multiplier_bands [of 100000000] market_cap_multiplier_bands [of 100000001]
    market_cap_multiplier_bands [of 1000000000] market_cap_multiplier_bands [of 10000000000]
    market_cap_multiplier_bands [of 10000000001]
  by simp

section \<open>Price levels\<close>



section \<open>Scores\<close>





lemma example_score:
  "calculate_score example_analysis =
     Inr \<lparr> momentum_score = 10, volume_score = 10, technical_score = 10, risk_score = 8.8,
           final_score = 9.82 \<rparr>"
  by (simp add: calculate_score_def example_analysis_def momentum_of_def volume_of_def
      technical_of_def risk_of_def py_round_int_def py_round_def round_half_even_def Let_def)



section \<open>Selection\<close>

lemma is_number_simps [simp]:
  "is_number (PNum x)" "\<not> is_number PNone" "\<not> is_number (PStr t)"
  by (simp_all add: is_number_def)

lemma select_loop_map_filter:
  assumes "\<forall>a \<in> set as. is_number (an_market_cap a)"
  shows "select_loop now as acc = Inr (acc @ List.map_filter (loop_signal now) as)"
  using assms
proof (induction as arbitrary: acc)
  case Nil
  then show ?case by (simp add: List.map_filter_simps)
next
  case (Cons a as)
  then obtain mc where mc: "an_market_cap a = PNum mc"
    by (cases "an_market_cap a") simp_all
  then obtain m where m: "market_cap_multiplier (an_market_cap a) = Inr m"
    by simp
  then obtain sc where sc: "calculate_score a = Inr sc"
    by (simp add: calculate_score_def Let_def)
  from Cons have IH: "\<And>acc. select_loop now as acc = Inr (acc @ List.map_filter (loop_signal now) as)"
    by simp
  have ls: "loop_signal now a =
      (if mc < MIN_MARKET_CAP then None
       else if final_score sc < MIN_SCORE then None
       else Some (make_signal now a sc
              (calculate_levels (an_price a)
                 (case atr (an_indicators a) of None \<Rightarrow> an_price a * 0.02 | Some v \<Rightarrow> v))))"
    using mc sc by (simp add: loop_signal_def)
  show ?case
    using mc sc by (simp add: IH ls List.map_filter_simps Let_def)
qed

lemma select_loop_Inr_numbers:
  "select_loop now as acc = Inr r \<Longrightarrow> \<forall>a \<in> set as. is_number (an_market_cap a)"
proof (induction as arbitrary: acc)
  case Nil
  then show ?case by simp
next
  case (Cons a as)
  from Cons.prems obtain mc where mc: "an_market_cap a = PNum mc"
    by (cases "an_market_cap a") simp_all
  from Cons.prems mc obtain acc' where "select_loop now as acc' = Inr r"
    by (auto simp: Let_def split: sum.splits if_splits)
  then have "\<forall>a \<in> set as. is_number (an_market_cap a)"
    by (rule Cons.IH)
  with mc show ?case by simp
qed

lemma select_top_Inr:
  "select_top_opportunities now as = Inr top_signals \<Longrightarrow>
     top_signals = take 10 (sort_desc (List.map_filter (loop_signal now) as))"
proof -
  assume a: "select_top_opportunities now as = Inr top_signals"
  then obtain r where r: "select_loop now as [] = Inr r"
    by (auto simp: select_top_opportunities_def split: sum.splits)
  from select_loop_Inr_numbers [OF r] have "select_loop now as [] = Inr ([] @ List.map_filter (loop_signal now) as)"
    by (rule select_loop_map_filter)
  with a show ?thesis
    by (simp add: select_top_opportunities_def)
qed

lemma loop_signal_Some:
  assumes "loop_signal now a = Some s"
  shows "\<exists>mc sc. an_market_cap a = PNum mc \<and> \<not> mc < MIN_MARKET_CAP
           \<and> calculate_score a = Inr sc \<and> \<not> final_score sc < MIN_SCORE
           \<and> s = make_signal now a sc
                 (calculate_levels (an_price a)
                    (case atr (an_indicators a) of None \<Rightarrow> an_price a * 0.02 | Some v \<Rightarrow> v))"
  using assms
  by (auto simp: loop_signal_def split: pyval.splits sum.splits if_splits)

lemma set_sort_desc: "set (sort_desc xs) = set xs"
  by (simp add: sort_desc_def)

lemma top_member:
  assumes "select_top_opportunities now as = Inr top_signals" and "s \<in> set top_signals"
  shows "\<exists>a \<in> set as. loop_signal now a = Some s"
proof -
  from assms have "s \<in> set (sort_desc (List.map_filter (loop_signal now) as))"
    using select_top_Inr [OF assms(1)] by (auto dest: in_set_takeD)
  then show ?thesis
    by (auto simp: set_sort_desc List.map_filter_def)
qed

lemma example_select:
  "select_top_opportunities ''t'' [example_analysis] =
     Inr [make_signal ''t'' example_analysis
            \<lparr> momentum_score = 10, volume_score = 10, technical_score = 10, risk_score = 8.8,
              final_score = 9.82 \<rparr>
            (calculate_levels 105 1)]"
proof -
  have f: "an_market_cap example_analysis = PNum 2000000000" "an_price example_analysis = 105"
    "atr (an_indicators example_analysis) = Some 1"
    by (simp_all add: example_analysis_def)
  show ?thesis
    by (simp add: select_top_opportunities_def example_score f sort_desc_def MIN_SCORE_def
        MIN_MARKET_CAP_def)
qed

lemma prefix_filter_take: "prefix (filter P (take n xs)) (filter P xs)"
proof -
  have "filter P xs = filter P (take n xs) @ filter P (drop n xs)"
    by (metis append_take_drop_id filter_append)
  then show ?thesis
    by (simp add: prefix_def)
qed

lemma sort_desc_sorted: "sorted_wrt (\<lambda>x y. cs_final_score y \<le> cs_final_score x) (sort_desc xs)"
proof -
  have "sorted (map (\<lambda>x. - cs_final_score x) (sort_desc xs))"
    by (simp add: sort_desc_def)
  then show ?thesis
    by (simp add: sorted_map)
qed

lemma sort_desc_stable:
  "filter (\<lambda>s. cs_final_score s = k) (sort_desc xs) = filter (\<lambda>s. cs_final_score s = k) xs"
  using sort_key_stable [of "\<lambda>x. - cs_final_score x" "- k" xs]
  by (simp add: sort_desc_def)

lemma example_eth_score: "calculate_score example_eth = Inr example_scores"
  by (simp add: calculate_score_def example_eth_def example_analysis_def momentum_of_def volume_of_def
      technical_of_def risk_of_def py_round_int_def py_round_def round_half_even_def Let_def example_scores_def)

lemma example_big_score: "calculate_score example_big = Inr (example_scores \<lparr> final_score := 10.8 \<rparr>)"
  by (simp add: calculate_score_def example_big_def example_analysis_def momentum_of_def volume_of_def
      technical_of_def risk_of_def py_round_int_def py_round_def round_half_even_def Let_def example_scores_def)

lemma example_fields:
  "an_market_cap example_analysis = PNum 2000000000" "an_price example_analysis = 105"
  "atr (an_indicators example_analysis) = Some 1"
  "an_market_cap example_eth = PNum 2000000000" "an_price example_eth = 105"
  "atr (an_indicators example_eth) = Some 1"
  "an_market_cap example_big = PNum 20000000000" "an_price example_big = 105"
  "atr (an_indicators example_big) = Some 1"
  "an_market_cap example_low_cap = PNum 50000000"
  by (simp_all add: example_analysis_def example_eth_def example_big_def example_low_cap_def)

lemma example_batch_signals:
  "loop_signal ''t'' example_analysis =
     Some (make_signal ''t'' example_analysis example_scores (calculate_levels 105 1))"
  "loop_signal ''t'' example_low_cap = None"
  "loop_signal ''t'' example_eth =
     Some (make_signal ''t'' example_eth example_scores (calculate_levels 105 1))"
  "loop_signal ''t'' example_big =
     Some (make_signal ''t'' example_big (example_scores \<lparr> final_score := 10.8 \<rparr>)
             (calculate_levels 105 1))"
  by (simp_all add: loop_signal_def example_fields example_score example_eth_score
      example_big_score example_scores_def MIN_SCORE_def MIN_MARKET_CAP_def)

lemma example_batch_numbers: "\<forall>a \<in> set example_batch. is_number (an_market_cap a)"
  by (simp add: example_batch_def example_analysis_def example_low_cap_def example_eth_def example_big_def)

lemma example_batch_select:
  "select_top_opportunities ''t'' example_batch =
     Inr [make_signal ''t'' example_big (example_scores \<lparr> final_score := 10.8 \<rparr>) (calculate_levels 105 1),
          make_signal ''t'' example_analysis example_scores (calculate_levels 105 1),
          make_signal ''t'' example_eth example_scores (calculate_levels 105 1)]"
  unfolding select_top_opportunities_def select_loop_map_filter [OF example_batch_numbers]
  by (simp add: example_batch_def List.map_filter_simps example_batch_signals sort_desc_def)
    (simp add: make_signal_def example_scores_def)

text \<open>
  C10: every signal \<open>select_top_opportunities\<close> emits has \<open>btc_correlation\<close> 0.75 and a
  pair that is its symbol, the symbol of an asset of the input, followed by \<open>/USDT\<close>.
\<close>

theorem signal_correlation_and_pair:
  assumes "select_top_opportunities now as = Inr top_signals"
  shows "\<forall>s \<in> set top_signals. cs_btc_correlation s = 0.75 \<and> cs_pair s = cs_symbol s @ ''/USDT''
            \<and> (\<exists>a \<in> set as. cs_symbol s = an_symbol a \<and> cs_pair s = an_symbol a @ ''/USDT'')"
proof
  fix s assume "s \<in> set top_signals"
  from top_member [OF assms this] obtain a where a: "a \<in> set as" "loop_signal now a = Some s"
    by blast
  from loop_signal_Some [OF a(2)] obtain sc lv where "s = make_signal now a sc lv"
    by blast
  then have "cs_btc_correlation s = 0.75 \<and> cs_pair s = cs_symbol s @ ''/USDT''
      \<and> cs_symbol s = an_symbol a \<and> cs_pair s = an_symbol a @ ''/USDT''"
    by (simp add: make_signal_def)
  with a(1) show "cs_btc_correlation s = 0.75 \<and> cs_pair s = cs_symbol s @ ''/USDT''
            \<and> (\<exists>a \<in> set as. cs_symbol s = an_symbol a \<and> cs_pair s = an_symbol a @ ''/USDT'')"
    by blast
qed

theorem signal_correlation_and_pair_witness:
  "cs_btc_correlation (make_signal ''t'' example_analysis
            \<lparr> momentum_score = 10, volume_score = 10, technical_score = 10, risk_score = 8.8,
              final_score = 9.82 \<rparr> (calculate_levels 105 1)) = 0.75
   \<and> cs_pair (make_signal ''t'' example_analysis
            \<lparr> momentum_score = 10, volume_score = 10, technical_score = 10, risk_score = 8.8,
              final_score = 9.82 \<rparr> (calculate_levels 105 1)) = ''BTC/USDT''"
  using signal_correlation_and_pair [OF example_select]
  by (simp add: make_signal_def example_analysis_def)

text \<open>
  C3: whenever \<open>select_top_opportunities\<close> returns a list, the list has at most ten
  entries, no signal in it has a market cap below 100,000,000 or a final score below 7.5,
  it is sorted non-increasing by final score, and the signals of one final score are the
  first ones of that score among the qualifying signals in the input's iteration order
  (the sort is stable). It returns a list for every batch whose market caps are numbers.
\<close>

theorem top_opportunities_ranked:
  "(select_top_opportunities now as = Inr top_signals \<longrightarrow>
      length top_signals \<le> 10
      \<and> (\<forall>s \<in> set top_signals.
            (\<exists>mc. cs_market_cap s = PNum mc \<and> \<not> mc < 100000000)
            \<and> \<not> cs_final_score s < 7.5)
      \<and> sorted_wrt (\<lambda>x y. cs_final_score y \<le> cs_final_score x) top_signals
      \<and> (\<forall>k. prefix (filter (\<lambda>s. cs_final_score s = k) top_signals)
                 (filter (\<lambda>s. cs_final_score s = k) (List.map_filter (loop_signal now) as))))
   \<and> ((\<forall>a \<in> set as. is_number (an_market_cap a)) \<longrightarrow>
        (\<exists>r. select_top_opportunities now as = Inr r))"
proof (intro conjI impI)
  assume num: "\<forall>a \<in> set as. is_number (an_market_cap a)"
  show "\<exists>r. select_top_opportunities now as = Inr r"
    by (simp add: select_top_opportunities_def select_loop_map_filter [OF num])
next
  assume sel: "select_top_opportunities now as = Inr top_signals"
  let ?q = "List.map_filter (loop_signal now) as"
  have top: "top_signals = take 10 (sort_desc ?q)"
    by (rule select_top_Inr [OF sel])
  show "length top_signals \<le> 10"
    by (simp add: top)
  show "sorted_wrt (\<lambda>x y. cs_final_score y \<le> cs_final_score x) top_signals"
    unfolding top by (rule sorted_wrt_take [OF sort_desc_sorted])
  show "\<forall>k. prefix (filter (\<lambda>s. cs_final_score s = k) top_signals)
                 (filter (\<lambda>s. cs_final_score s = k) ?q)"
  proof
    fix k
    have "prefix (filter (\<lambda>s. cs_final_score s = k) (take 10 (sort_desc ?q)))
            (filter (\<lambda>s. cs_final_score s = k) (sort_desc ?q))"
      by (rule prefix_filter_take)
    then show "prefix (filter (\<lambda>s. cs_final_score s = k) top_signals)
                 (filter (\<lambda>s. cs_final_score s = k) ?q)"
      by (simp add: top sort_desc_stable)
  qed
  show "\<forall>s \<in> set top_signals.
            (\<exists>mc. cs_market_cap s = PNum mc \<and> \<not> mc < 100000000)
            \<and> \<not> cs_final_score s < 7.5"
  proof
    fix s assume "s \<in> set top_signals"
    from top_member [OF sel this] obtain a where "loop_signal now a = Some s"
      by blast
    from loop_signal_Some [OF this] obtain mc sc lv where
      "an_market_cap a = PNum mc" "\<not> mc < MIN_MARKET_CAP" "\<not> final_score sc < MIN_SCORE"
      "s = make_signal now a sc lv"
      by blast
    then show "(\<exists>mc. cs_market_cap s = PNum mc \<and> \<not> mc < 100000000)
            \<and> \<not> cs_final_score s < 7.5"
      by (simp add: make_signal_def MIN_MARKET_CAP_def MIN_SCORE_def)
  qed
qed

theorem top_opportunities_ranked_witness:
  "select_top_opportunities ''t'' example_batch =
     Inr [make_signal ''t'' example_big (example_scores \<lparr> final_score := 10.8 \<rparr>) (calculate_levels 105 1),
          make_signal ''t'' example_analysis example_scores (calculate_levels 105 1),
          make_signal ''t'' example_eth example_scores (calculate_levels 105 1)]
   \<and> sorted_wrt (\<lambda>x y. cs_final_score y \<le> cs_final_score x)
        [make_signal ''t'' example_big (example_scores \<lparr> final_score := 10.8 \<rparr>) (calculate_levels 105 1),
         make_signal ''t'' example_analysis example_scores (calculate_levels 105 1),
         make_signal ''t'' example_eth example_scores (calculate_levels 105 1)]
   \<and> prefix (filter (\<lambda>s. cs_final_score s = 9.82)
        [make_signal ''t'' example_big (example_scores \<lparr> final_score := 10.8 \<rparr>) (calculate_levels 105 1),
         make_signal ''t'' example_analysis example_scores (calculate_levels 105 1),
         make_signal ''t'' example_eth example_scores (calculate_levels 105 1)])
        (filter (\<lambda>s. cs_final_score s = 9.82) (List.map_filter (loop_signal ''t'') example_batch))"
  using top_opportunities_ranked [of "''t''" example_batch
      "[make_signal ''t'' example_big (example_scores \<lparr> final_score := 10.8 \<rparr>) (calculate_levels 105 1),
        make_signal ''t'' example_analysis example_scores (calculate_levels 105 1),
        make_signal ''t'' example_eth example_scores (calculate_levels 105 1)]"]
    example_batch_select
  by blast

section \<open>Relative strength index\<close>

lemma length_diffs_from [simp]: "length (diffs_from p xs) = length xs"
  by (induction xs arbitrary: p) simp_all

lemma length_diff [simp]: "length (diff xs) = length xs"
  by (simp add: diff_def split: list.splits)

lemma diffs_from_nth:
  "i < length xs \<Longrightarrow> diffs_from p xs ! i = Some (xs ! i - (if i = 0 then p else xs ! (i - 1)))"
proof (induction xs arbitrary: p i)
  case Nil
  then show ?case by simp
next
  case (Cons x xs)
  then show ?case
    by (cases i) (auto simp: nth_Cons')
qed

lemma diff_nth:
  assumes "i < length xs" "0 < i"
  shows "diff xs ! i = Some (xs ! i - xs ! (i - 1))"
proof (cases xs)
  case Nil
  with assms show ?thesis by simp
next
  case (Cons x rest)
  with assms obtain j where j: "i = Suc j" "j < length rest"
    by (cases i) auto
  then show ?thesis
    using Cons by (auto simp: diff_def diffs_from_nth nth_Cons')
qed

lemma length_rolling_mean [simp]: "length (rolling_mean w s) = length s"
  by (simp add: rolling_mean_def)

lemma last_rolling_mean:
  assumes "s \<noteq> []" "w \<le> length s"
  shows "last (rolling_mean w s) = window_mean (take w (drop (length s - w) s))"
proof -
  from assms obtain n where n: "length s = Suc n"
    by (cases s) auto
  then show ?thesis
    using assms by (simp add: rolling_mean_def)
qed

lemma window_eq_map_nth:
  assumes "w \<le> length s"
  shows "take w (drop (length s - w) s) = map (nth s) [length s - w..<length s]"
proof -
  have "take w (drop (length s - w) s) = drop (length s - w) s"
    using assms by simp
  also have "\<dots> = drop (length s - w) (map (nth s) [0..<length s])"
    by (simp add: map_nth)
  also have "\<dots> = map (nth s) [length s - w..<length s]"
    by (simp add: drop_map drop_upt del: map_nth)
  finally show ?thesis .
qed

lemma window_mean_Some:
  assumes "k < n" "\<And>i. k \<le> i \<Longrightarrow> i < n \<Longrightarrow> s ! i = Some (f i)"
  shows "window_mean (map (nth s) [k..<n]) = Some (sum_list (map f [k..<n]) / real (n - k))"
proof -
  have eq: "map (nth s) [k..<n] = map (\<lambda>i. Some (f i)) [k..<n]"
    using assms(2) by simp
  have "map the (map (\<lambda>i. Some (f i)) [k..<n]) = map f [k..<n]"
    by simp
  then show ?thesis
    unfolding eq window_mean_def using assms(1) by (auto simp: o_def)
qed

lemma gain_nth:
  assumes "i < length xs" "0 < i"
  shows "series_where gt_zero 0 (diff xs) ! i = Some (max 0 (xs ! i - xs ! (i - 1)))"
  using assms by (simp add: series_where_def diff_nth gt_zero_def max_def)

lemma loss_nth:
  assumes "i < length xs" "0 < i"
  shows "map (map_option uminus) (series_where lt_zero 0 (diff xs)) ! i
           = Some (max 0 (xs ! (i - 1) - xs ! i))"
  using assms by (simp add: series_where_def diff_nth lt_zero_def max_def)

lemma last_gain_series:
  assumes "0 < period" "period + 1 \<le> length prices"
  shows "last (gain_series prices period) =
           Some (sum_list (map (\<lambda>i. max 0 (prices ! i - prices ! (i - 1)))
                   [length prices - period..<length prices]) / real period)"
proof -
  let ?s = "series_where gt_zero 0 (diff prices)"
  have len: "length ?s = length prices" by (simp add: series_where_def)
  have ne: "?s \<noteq> []" using assms len by (metis add_leD2 le_zero_eq length_0_conv not_one_le_zero)
  have w: "period \<le> length ?s" using assms len by simp
  have "last (gain_series prices period) = window_mean (map (nth ?s) [length prices - period..<length prices])"
    using last_rolling_mean [OF ne w] window_eq_map_nth [OF w] len by (simp add: gain_series_def)
  also have "\<dots> = Some (sum_list (map (\<lambda>i. max 0 (prices ! i - prices ! (i - 1)))
                   [length prices - period..<length prices]) / real (length prices - (length prices - period)))"
  proof (rule window_mean_Some)
    show "length prices - period < length prices" using assms by simp
    fix i assume "length prices - period \<le> i" "i < length prices"
    moreover from this assms have "0 < i" by simp
    ultimately show "?s ! i = Some (max 0 (prices ! i - prices ! (i - 1)))"
      by (simp only: gain_nth)
  qed
  finally show ?thesis using assms by simp
qed

lemma last_loss_series:
  assumes "0 < period" "period + 1 \<le> length prices"
  shows "last (loss_series prices period) =
           Some (sum_list (map (\<lambda>i. max 0 (prices ! (i - 1) - prices ! i))
                   [length prices - period..<length prices]) / real period)"
proof -
  let ?s = "map (map_option uminus) (series_where lt_zero 0 (diff prices))"
  have len: "length ?s = length prices" by (simp add: series_where_def)
  have ne: "?s \<noteq> []" using assms len by (metis add_leD2 le_zero_eq length_0_conv not_one_le_zero)
  have w: "period \<le> length ?s" using assms len by simp
  have "last (loss_series prices period) = window_mean (map (nth ?s) [length prices - period..<length prices])"
    using last_rolling_mean [OF ne w] window_eq_map_nth [OF w] len by (simp add: loss_series_def)
  also have "\<dots> = Some (sum_list (map (\<lambda>i. max 0 (prices ! (i - 1) - prices ! i))
                   [length prices - period..<length prices]) / real (length prices - (length prices - period)))"
  proof (rule window_mean_Some)
    show "length prices - period < length prices" using assms by simp
    fix i assume "length prices - period \<le> i" "i < length prices"
    moreover from this assms have "0 < i" by simp
    ultimately show "?s ! i = Some (max 0 (prices ! (i - 1) - prices ! i))"
      by (simp only: loss_nth)
  qed
  finally show ?thesis using assms by simp
qed

lemma length_gain_series [simp]: "length (gain_series prices period) = length prices"
  by (simp add: gain_series_def series_where_def)

lemma length_loss_series [simp]: "length (loss_series prices period) = length prices"
  by (simp add: loss_series_def series_where_def)

lemma calculate_rsi_last:
  assumes "period + 1 \<le> length prices"
  shows "calculate_rsi prices period =
           (let r = rsi_of_rs (fl_div (fl_of (last (gain_series prices period)))
                                      (fl_of (last (loss_series prices period))))
            in if notna r then r else Num 50)"
proof -
  have ne: "gain_series prices period \<noteq> []" "loss_series prices period \<noteq> []"
    using assms by (auto simp flip: length_0_conv)
  have z: "zip (gain_series prices period) (loss_series prices period) \<noteq> []"
    using ne by (cases "gain_series prices period"; cases "loss_series prices period") simp_all
  have "last (zip (gain_series prices period) (loss_series prices period))
          = (last (gain_series prices period), last (loss_series prices period))"
    by (rule last_zip [OF ne]) simp
  then show ?thesis
    using assms z by (simp add: calculate_rsi_def Let_def last_map)
qed

lemma rsi_of_rs_cases:
  assumes "0 \<le> G" "0 \<le> L"
  shows "rsi_of_rs (fl_div (Num G) (Num L)) =
           (if L \<noteq> 0 then Num (100 - 100 / (1 + G / L)) else if 0 < G then Num 100 else NaN)"
  using assms by (auto simp: rsi_of_rs_def fl_sub_def add_nonneg_eq_0_iff)

lemma sum_list_nonneg_window:
  "(0::real) \<le> sum_list (map (\<lambda>i. max 0 (f i)) (xs::nat list))"
  by (induction xs) simp_all

lemma calculate_rsi_value:
  assumes "0 < period" "period + 1 \<le> length prices"
  shows "\<exists>G L. 0 \<le> G \<and> 0 \<le> L
           \<and> last (gain_series prices period) = Some G
           \<and> last (loss_series prices period) = Some L
           \<and> calculate_rsi prices period =
               (if L \<noteq> 0 then Num (100 - 100 / (1 + G / L)) else if 0 < G then Num 100 else Num 50)"
proof -
  let ?G = "sum_list (map (\<lambda>i. max 0 (prices ! i - prices ! (i - 1)))
                   [length prices - period..<length prices]) / real period"
  let ?L = "sum_list (map (\<lambda>i. max 0 (prices ! (i - 1) - prices ! i))
                   [length prices - period..<length prices]) / real period"
  have G: "0 \<le> ?G" and L: "0 \<le> ?L"
    by (simp_all add: sum_list_nonneg_window divide_nonneg_nonneg del: One_nat_def)
  have g: "last (gain_series prices period) = Some ?G"
    by (rule last_gain_series [OF assms])
  have l: "last (loss_series prices period) = Some ?L"
    by (rule last_loss_series [OF assms])
  have "calculate_rsi prices period =
               (if ?L \<noteq> 0 then Num (100 - 100 / (1 + ?G / ?L)) else if 0 < ?G then Num 100 else Num 50)"
    unfolding calculate_rsi_last [OF assms(2)] g l fl_of.simps rsi_of_rs_cases [OF G L]
    by (simp add: Let_def)
  with G L g l show ?thesis by blast
qed

lemma rolling_mean_zero: "s \<noteq> [] \<Longrightarrow> last (rolling_mean 0 s) = None"
  by (simp add: rolling_mean_def window_mean_def last_map)

text \<open>
  C7: for every price series with at least \<open>period + 1\<close> points \<open>calculate_rsi\<close> returns
  a number in \<open>[0, 100]\<close>; for every series with fewer points it returns exactly 50.0.
\<close>

theorem calculate_rsi_range:
  "(length prices < period + 1 \<longrightarrow> calculate_rsi prices period = Num 50)
   \<and> (period + 1 \<le> length prices \<longrightarrow>
        (\<exists>r. calculate_rsi prices period = Num r \<and> 0 \<le> r \<and> r \<le> 100))"
proof (intro conjI impI)
  assume "length prices < period + 1"
  then show "calculate_rsi prices period = Num 50"
    by (simp add: calculate_rsi_def)
next
  assume len: "period + 1 \<le> length prices"
  show "\<exists>r. calculate_rsi prices period = Num r \<and> 0 \<le> r \<and> r \<le> 100"
  proof (cases "period = 0")
    case True
    have ne: "series_where gt_zero 0 (diff prices) \<noteq> []"
      using len by (auto simp: series_where_def simp flip: length_0_conv)
    have "last (gain_series prices period) = None"
      unfolding gain_series_def True by (rule rolling_mean_zero [OF ne])
    then have "calculate_rsi prices period = Num 50"
      unfolding calculate_rsi_last [OF len] by (simp add: rsi_of_rs_def fl_sub_def)
    then show ?thesis by simp
  next
    case False
    then have "0 < period" by simp
    from calculate_rsi_value [OF this len] obtain G L where
      GL: "0 \<le> G" "0 \<le> L" and
      v: "calculate_rsi prices period =
               (if L \<noteq> 0 then Num (100 - 100 / (1 + G / L)) else if 0 < G then Num 100 else Num 50)"
      by blast
    show ?thesis
    proof (cases "L = 0")
      case True
      with v show ?thesis by auto
    next
      case False
      with GL have "1 \<le> 1 + G / L" by simp
      then have "0 \<le> 100 / (1 + G / L)" "100 / (1 + G / L) \<le> 100"
        by (simp_all add: divide_le_eq)
      with v False show ?thesis by simp
    qed
  qed
qed

theorem calculate_rsi_range_witness:
  "calculate_rsi [1, 2, 3] 14 = Num 50
   \<and> (\<exists>r. calculate_rsi [1, 2, 3, 2, 5, 6, 7, 8, 9, 10, 11, 12, 13, 14, 15, 16] 14 = Num r
          \<and> 0 \<le> r \<and> r \<le> 100)"
  using calculate_rsi_range [where prices = "[1, 2, 3]" and period = 14]
    calculate_rsi_range
      [where prices = "[1, 2, 3, 2, 5, 6, 7, 8, 9, 10, 11, 12, 13, 14, 15, 16]" and period = 14]
  by simp

lemma telescope:
  fixes p :: "real list"
  assumes "1 \<le> k" "k \<le> n"
  shows "sum_list (map (\<lambda>i. p ! i - p ! (i - 1)) [k..<n]) = p ! (n - 1) - p ! (k - 1)"
  using assms(2)
proof (induction n)
  case 0
  with assms(1) show ?case by simp
next
  case (Suc n)
  show ?case
  proof (cases "k = Suc n")
    case True
    then show ?thesis by simp
  next
    case False
    with Suc.prems have kn: "k \<le> n" by simp
    with assms(1) have "0 < n" by simp
    with Suc.IH [OF kn] kn show ?thesis by simp
  qed
qed

text \<open>
  On the rising series 1, 2, ..., 15 the average loss of the window is 0 and the average
  gain is 1: the quotient is infinite, not undefined, and the result is 100.0.
\<close>

theorem calculate_rsi_rising_counterexample:
  "sorted [1, 2, 3, 4, 5, 6, 7, 8, 9, 10, 11, 12, 13, 14, 15 :: real]
   \<and> last (loss_series [1, 2, 3, 4, 5, 6, 7, 8, 9, 10, 11, 12, 13, 14, 15] 14) = Some 0
   \<and> calculate_rsi [1, 2, 3, 4, 5, 6, 7, 8, 9, 10, 11, 12, 13, 14, 15] 14 = Num 100
   \<and> calculate_rsi [1, 2, 3, 4, 5, 6, 7, 8, 9, 10, 11, 12, 13, 14, 15] 14 \<noteq> Num 50"
  by code_simp

text \<open>
  C1, amended: for every price series with at least \<open>period + 1\<close> points whose trailing
  window never falls (the last \<open>period + 1\<close> prices are non-decreasing, so the average
  loss is 0), \<open>calculate_rsi\<close> returns 100.0 when the window rises (its last price
  exceeds its first) and 50.0 when the window is flat.
\<close>

theorem calculate_rsi_sorted_window:
  assumes "0 < period" "period + 1 \<le> length prices"
    and "sorted (drop (length prices - (period + 1)) prices)"
  shows "last (loss_series prices period) = Some 0
         \<and> calculate_rsi prices period =
             (if prices ! (length prices - (period + 1)) < last prices then Num 100 else Num 50)"
proof -
  let ?n = "length prices"
  let ?k = "?n - period"
  have mono: "prices ! (i - 1) \<le> prices ! i" if "?k \<le> i" "i < ?n" for i
  proof -
    let ?b = "?n - (period + 1)"
    have "drop ?b prices ! (i - 1 - ?b) \<le> drop ?b prices ! (i - ?b)"
      using that assms(1,2) by (intro sorted_nth_mono [OF assms(3)]) auto
    moreover have "?b + (i - 1 - ?b) = i - 1" "?b + (i - ?b) = i"
      using that assms(1,2) by auto
    ultimately show ?thesis
      using that assms(2) by (simp del: One_nat_def)
  qed
  have Lmap: "map (\<lambda>i. max 0 (prices ! (i - 1) - prices ! i)) [?k..<?n] = map (\<lambda>i. 0) [?k..<?n]"
  proof (intro map_cong refl)
    fix i assume "i \<in> set [?k..<?n]"
    then have "prices ! (i - 1) \<le> prices ! i" using mono by simp
    then show "max 0 (prices ! (i - 1) - prices ! i) = 0"
      by (simp add: max_def)
  qed
  have Gmap: "map (\<lambda>i. max 0 (prices ! i - prices ! (i - 1))) [?k..<?n]
                = map (\<lambda>i. prices ! i - prices ! (i - 1)) [?k..<?n]"
  proof (intro map_cong refl)
    fix i assume "i \<in> set [?k..<?n]"
    then have "prices ! (i - 1) \<le> prices ! i" using mono by simp
    then show "max 0 (prices ! i - prices ! (i - 1)) = prices ! i - prices ! (i - 1)"
      by (simp add: max_def)
  qed
  have k: "1 \<le> ?k" "?k \<le> ?n" using assms by auto
  have Gsum: "sum_list (map (\<lambda>i. max 0 (prices ! i - prices ! (i - 1))) [?k..<?n])
                = last prices - prices ! (?n - (period + 1))"
  proof -
    have "prices \<noteq> []" using assms(2) by auto
    then have "last prices = prices ! (?n - 1)" by (rule last_conv_nth)
    moreover have "?k - 1 = ?n - (period + 1)" by simp
    ultimately show ?thesis
      unfolding Gmap telescope [OF k] by simp
  qed
  have L0: "last (loss_series prices period) = Some 0"
    unfolding last_loss_series [OF assms(1,2)] Lmap by simp
  have G: "last (gain_series prices period) = Some ((last prices - prices ! (?n - (period + 1))) / real period)"
    unfolding last_gain_series [OF assms(1,2)] Gsum ..
  from calculate_rsi_value [OF assms(1,2)] obtain G L where
    "last (gain_series prices period) = Some G" "last (loss_series prices period) = Some L"
    "calculate_rsi prices period =
               (if L \<noteq> 0 then Num (100 - 100 / (1 + G / L)) else if 0 < G then Num 100 else Num 50)"
    by blast
  with L0 G have "calculate_rsi prices period =
      (if 0 < (last prices - prices ! (?n - (period + 1))) / real period then Num 100 else Num 50)"
    by simp
  with assms(1) L0 show ?thesis
    by (simp add: zero_less_divide_iff)
qed

theorem calculate_rsi_sorted_window_witness:
  "calculate_rsi [1, 2, 3, 4, 5, 6, 7, 8, 9, 10, 11, 12, 13, 14, 15] 14 = Num 100
   \<and> calculate_rsi [9, 8, 5, 5, 5, 5, 5, 5, 5, 5, 5, 5, 5, 5, 5, 5, 5] 14 = Num 50
   \<and> last (loss_series [9, 8, 5, 5, 5, 5, 5, 5, 5, 5, 5, 5, 5, 5, 5, 5, 5] 14) = Some 0"
  using calculate_rsi_sorted_window
      [where period = 14 and prices = "[1, 2, 3, 4, 5, 6, 7, 8, 9, 10, 11, 12, 13, 14, 15]"]
    calculate_rsi_sorted_window
      [where period = 14 and prices = "[9, 8, 5, 5, 5, 5, 5, 5, 5, 5, 5, 5, 5, 5, 5, 5, 5]"]
  by simp

section \<open>Analysis of the assets\<close>

lemma analyze_loop_map_filter:
  "analyze_loop coins acc = acc @ List.map_filter analyze_coin coins"
  by (induction coins arbitrary: acc) (auto simp: List.map_filter_simps split: option.splits)

lemma analyze_all_map_filter: "analyze_all coins = List.map_filter analyze_coin coins"
  by (simp add: analyze_all_def analyze_loop_map_filter)

lemma map_filter_append: "List.map_filter f (xs @ ys) = List.map_filter f xs @ List.map_filter f ys"
  by (simp add: List.map_filter_def)

lemma analyze_all_skips:
  assumes "analyze_coin coin = None"
  shows "analyze_all (before @ coin # after) = analyze_all (before @ after)"
  using assms by (simp add: analyze_all_map_filter map_filter_append List.map_filter_simps)

text \<open>
  C9: for every asset whose price series has fewer than 20 bars, \<open>analyze_coin\<close> returns
  \<open>None\<close> at its length check, without raising, and \<open>analyze_all\<close> leaves the asset out
  of \<open>analyzed_coins\<close>.
\<close>

theorem short_series_skipped:
  assumes "length (cd_ohlc coin) < 20"
  shows "analyze_coin_body coin = Inr None \<and> analyze_coin coin = None
         \<and> analyze_all (before @ coin # after) = analyze_all (before @ after)"
proof -
  have b: "analyze_coin_body coin = Inr None"
    using assms by (simp add: analyze_coin_body_def Let_def)
  then have n: "analyze_coin coin = None"
    by (simp add: analyze_coin_def)
  from b n analyze_all_skips [OF n] show ?thesis by simp
qed

lemma example_short_length: "length (cd_ohlc example_short_coin) < 20"
  by (simp add: example_short_coin_def)

theorem short_series_skipped_witness:
  "analyze_coin example_short_coin = None
   \<and> analyze_all [example_coin, example_short_coin, example_null_cap_coin]
       = analyze_all [example_coin, example_null_cap_coin]"
  using short_series_skipped [OF example_short_length, of "[example_coin]" "[example_null_cap_coin]"]
  by simp


lemma length_shift1 [simp]: "length (shift1 s) = length s"
  by (cases s) (simp_all add: shift1_def)

lemma length_true_range [simp]: "length (true_range df) = length df"
  by (simp add: true_range_def)















end
